theory Spec2Isabelle
  imports Main
begin

section \<open>The data model of \<open>socow_vector<T, SMALL_SIZE>\<close>\<close>

text \<open>
  The template parameter \<open>SMALL_SIZE\<close> is the argument \<open>N\<close> of every function below.
  Sizes, capacities and reference counts are \<open>size_t\<close> in the source; they are natural
  numbers here, which is exact as long as no count passes \<open>2^64 - 1\<close>: a count of
  constructed elements or a capacity of an allocated block is bounded by the address space.

  The element type \<open>T\<close> is the type variable \<open>'a\<close>. Its copy constructor may throw, its
  destructor and \<open>std::swap\<close> on it do not. The allocator may throw \<open>std::bad_alloc\<close>.
\<close>

datatype exn = bad_alloc | copy_failed

datatype 'r result = Return 'r | Throw exn

text \<open>
  \<open>struct dynamic_buffer\<close>. A name cannot end in an underscore here, so the members
  \<open>capacity_\<close>, \<open>data_\<close>, \<open>size_\<close> and \<open>is_small_vector_\<close> of the source are
  \<open>m_capacity\<close>, \<open>m_data\<close>, \<open>m_size\<close> and \<open>m_is_small_vector\<close>. \<open>m_data\<close> lists the
  elements that are constructed in the block, from slot 0 on.
\<close>

record 'a dynamic_buffer =
  m_capacity :: nat
  refs_count :: nat
  m_data :: "'a list"

text \<open>
  What the operations run in: the heap of dynamic buffers (\<open>operator new\<close> hands out the
  addresses \<open>next_addr\<close>, \<open>next_addr + 1\<close>, ... and never one twice), and how the element
  type and the allocator behave: the next \<open>copy_fuel\<close> copy constructions succeed and the
  one after them throws, the next \<open>alloc_fuel\<close> allocations succeed and the one after them
  throws. \<open>copies\<close> counts the calls of the copy constructor of \<open>T\<close>.
\<close>

record 'a world =
  heap :: "nat \<Rightarrow> 'a dynamic_buffer option"
  next_addr :: nat
  copy_fuel :: nat
  alloc_fuel :: nat
  copies :: nat

text \<open>
  The anonymous union of the class. Reading the member that is not the active one gives no
  constructed element, respectively the null pointer.
\<close>

datatype 'a storage =
    Dynamic_data (dynamic_data: nat)
  | Static_buffer (static_buffer: "'a list")
where
  "dynamic_data (Static_buffer xs) = 0"
| "static_buffer (Dynamic_data p) = []"

text \<open>
  A container object. \<open>this_addr\<close> is the address of the object itself, which no operation
  changes; the inline elements live at that address.
\<close>

record 'a socow_vector =
  this_addr :: nat
  m_size :: nat
  m_is_small_vector :: bool
  storage :: "'a storage"

text \<open>The value of \<open>const_data()\<close>: where the elements are.\<close>

datatype data_ptr = Static_data nat | Dynamic_data_of nat

type_synonym iterator = "data_ptr \<times> nat"

section \<open>The element type and the allocator\<close>

definition copy_construct :: "'a \<Rightarrow> 'a world \<Rightarrow> 'a result \<times> 'a world" where
  "copy_construct x w =
     (if copy_fuel w = 0 then (Throw copy_failed, w\<lparr>copies := Suc (copies w)\<rparr>)
      else (Return x, w\<lparr>copy_fuel := copy_fuel w - 1, copies := Suc (copies w)\<rparr>))"

text \<open>
  \<open>std::uninitialized_copy\<close>: copies the source range element by element; when a copy
  throws, the copies made so far are destroyed and the exception goes on. The result is the
  list of the new objects, which the caller's destination then holds.
\<close>

fun uninitialized_copy :: "'a list \<Rightarrow> 'a world \<Rightarrow> 'a list result \<times> 'a world" where
  "uninitialized_copy [] w = (Return [], w)"
| "uninitialized_copy (x # xs) w =
     (case copy_construct x w of
        (Throw e, w1) \<Rightarrow> (Throw e, w1)
      | (Return y, w1) \<Rightarrow>
          (case uninitialized_copy xs w1 of
             (Throw e, w2) \<Rightarrow> (Throw e, w2)
           | (Return ys, w2) \<Rightarrow> (Return (y # ys), w2)))"

text \<open>Constructing the objects \<open>ys\<close> in the slots \<open>pos\<close>, \<open>pos + 1\<close>, ... of a storage.\<close>

definition construct_at :: "nat \<Rightarrow> 'a list \<Rightarrow> 'a list \<Rightarrow> 'a list" where
  "construct_at pos ys xs = take pos xs @ ys @ drop (pos + length ys) xs"

text \<open>\<open>std::destroy_n(first, n)\<close> on a storage whose first slot is \<open>first\<close>.\<close>

definition destroy_n :: "nat \<Rightarrow> 'a list \<Rightarrow> 'a list" where
  "destroy_n n xs = drop n xs"

section \<open>Private member functions\<close>

text \<open>Dereferencing \<open>dynamic_data\<close>; a pointer to no live block reads an empty block.\<close>

definition buffer_at :: "'a world \<Rightarrow> nat \<Rightarrow> 'a dynamic_buffer" where
  "buffer_at w p =
     (case heap w p of Some b \<Rightarrow> b
      | None \<Rightarrow> \<lparr>m_capacity = 0, refs_count = 0, m_data = []\<rparr>)"

definition update_buffer ::
  "nat \<Rightarrow> ('a dynamic_buffer \<Rightarrow> 'a dynamic_buffer) \<Rightarrow> 'a world \<Rightarrow> 'a world" where
  "update_buffer p f w = w\<lparr>heap := (heap w)(p := map_option f (heap w p))\<rparr>"

definition is_only_vector_ref :: "'a world \<Rightarrow> 'a socow_vector \<Rightarrow> bool" where
  "is_only_vector_ref w v \<longleftrightarrow>
     m_is_small_vector v \<or> refs_count (buffer_at w (dynamic_data (storage v))) = 1"

definition const_data :: "'a socow_vector \<Rightarrow> data_ptr" where
  "const_data v =
     (if m_is_small_vector v then Static_data (this_addr v)
      else Dynamic_data_of (dynamic_data (storage v)))"

text \<open>The objects constructed in the storage that \<open>const_data()\<close> points to.\<close>

definition constructed :: "'a world \<Rightarrow> 'a socow_vector \<Rightarrow> 'a list" where
  "constructed w v =
     (if m_is_small_vector v then static_buffer (storage v)
      else m_data (buffer_at w (dynamic_data (storage v))))"

definition put_constructed ::
  "'a list \<Rightarrow> 'a world \<Rightarrow> 'a socow_vector \<Rightarrow> 'a world \<times> 'a socow_vector" where
  "put_constructed xs w v =
     (if m_is_small_vector v then (w, v\<lparr>storage := Static_buffer xs\<rparr>)
      else (update_buffer (dynamic_data (storage v)) (\<lambda>b. b\<lparr>m_data := xs\<rparr>) w, v))"

text \<open>The range \<open>[begin(), end())\<close> of the const overloads.\<close>

definition elems :: "'a world \<Rightarrow> 'a socow_vector \<Rightarrow> 'a list" where
  "elems w v = take (m_size v) (constructed w v)"

definition capacity :: "nat \<Rightarrow> 'a world \<Rightarrow> 'a socow_vector \<Rightarrow> nat" where
  "capacity N w v =
     (if m_is_small_vector v then N
      else m_capacity (buffer_at w (dynamic_data (storage v))))"

definition is_same_vector :: "'a socow_vector \<Rightarrow> 'a socow_vector \<Rightarrow> bool" where
  "is_same_vector this other \<longleftrightarrow> const_data this = const_data other"

definition allocate_dynamic_buffer ::
  "nat \<Rightarrow> 'a world \<Rightarrow> 'a socow_vector \<Rightarrow> unit result \<times> 'a world \<times> 'a socow_vector" where
  "allocate_dynamic_buffer cap w v =
     (if alloc_fuel w = 0 then (Throw bad_alloc, w, v)
      else (Return (),
            w\<lparr>heap := (heap w)(next_addr w \<mapsto> \<lparr>m_capacity = cap, refs_count = 1, m_data = []\<rparr>),
              next_addr := Suc (next_addr w),
              alloc_fuel := alloc_fuel w - 1\<rparr>,
            v\<lparr>storage := Dynamic_data (next_addr w)\<rparr>))"

definition add_vector_ref :: "'a world \<Rightarrow> 'a socow_vector \<Rightarrow> 'a world" where
  "add_vector_ref w v =
     (if m_is_small_vector v then w
      else update_buffer (dynamic_data (storage v))
             (\<lambda>b. b\<lparr>refs_count := Suc (refs_count b)\<rparr>) w)"

text \<open>
  \<open>release_ref(dynamic_data, count)\<close>: the last reference destroys the \<open>count\<close> elements
  and frees the block.
\<close>

definition release_ref :: "nat \<Rightarrow> nat \<Rightarrow> 'a world \<Rightarrow> 'a world" where
  "release_ref p count w =
     (if refs_count (buffer_at w p) - 1 = 0 then w\<lparr>heap := (heap w)(p := None)\<rparr>
      else update_buffer p (\<lambda>b. b\<lparr>refs_count := refs_count b - 1\<rparr>) w)"

definition release_vector_ref :: "'a world \<Rightarrow> 'a socow_vector \<Rightarrow> 'a world" where
  "release_vector_ref w v =
     (if m_is_small_vector v then w
      else release_ref (dynamic_data (storage v)) (m_size v) w)"

definition noexcept_clear :: "'a world \<Rightarrow> 'a socow_vector \<Rightarrow> 'a world \<times> 'a socow_vector" where
  "noexcept_clear w v =
     (if \<not> is_only_vector_ref w v then
        (update_buffer (dynamic_data (storage v)) (\<lambda>b. b\<lparr>refs_count := refs_count b - 1\<rparr>) w,
         v\<lparr>m_is_small_vector := True, m_size := 0\<rparr>)
      else
        (case put_constructed (destroy_n (m_size v) (constructed w v)) w v of
           (w1, v1) \<Rightarrow> (w1, v1\<lparr>m_size := 0\<rparr>)))"

text \<open>The destructor.\<close>

definition destructor :: "'a world \<Rightarrow> 'a socow_vector \<Rightarrow> 'a world" where
  "destructor w v =
     (if m_is_small_vector v then fst (noexcept_clear w v) else release_vector_ref w v)"

text \<open>
  The private constructor \<open>socow_vector(other, new_size, new_capacity)\<close>, for an object at
  \<open>addr\<close>. Its call of \<open>data()\<close> is on the object under construction, which is small or
  holds the block just allocated with \<open>refs_count = 1\<close>: \<open>unshare()\<close> returns at once there.
\<close>

definition socow_vector_copy_n ::
  "nat \<Rightarrow> 'a world \<Rightarrow> nat \<Rightarrow> 'a socow_vector \<Rightarrow> nat \<Rightarrow> nat \<Rightarrow>
     'a socow_vector result \<times> 'a world" where
  "socow_vector_copy_n N w addr other new_size new_capacity =
     (let v0 = \<lparr>this_addr = addr, m_size = new_size,
                m_is_small_vector = (new_capacity \<le> N), storage = Dynamic_data 0\<rparr>
      in if m_is_small_vector v0 then
           (case uninitialized_copy (take new_size (constructed w other)) w of
              (Throw e, w1) \<Rightarrow> (Throw e, w1)
            | (Return ys, w1) \<Rightarrow> (Return (v0\<lparr>storage := Static_buffer ys\<rparr>), w1))
         else
           (case allocate_dynamic_buffer new_capacity w v0 of
              (Throw e, w1, v1) \<Rightarrow> (Throw e, w1)
            | (Return u, w1, v1) \<Rightarrow>
                (case uninitialized_copy (take new_size (constructed w1 other)) w1 of
                   (Throw e, w2) \<Rightarrow>
                     (Throw e, w2\<lparr>heap := (heap w2)(dynamic_data (storage v1) := None)\<rparr>)
                 | (Return ys, w2) \<Rightarrow>
                     (case put_constructed (construct_at 0 ys (constructed w2 v1)) w2 v1 of
                        (w3, v3) \<Rightarrow> (Return v3, w3)))))"


text \<open>
  The first branch of \<open>pop_back()\<close>, \<open>const_data()[--size_].~T()\<close>, which is the branch
  taken when \<open>is_only_vector_ref()\<close> holds.
\<close>

definition pop_back_only_ref :: "'a world \<Rightarrow> 'a socow_vector \<Rightarrow> 'a world \<times> 'a socow_vector" where
  "pop_back_only_ref w v =
     (let v1 = v\<lparr>m_size := m_size v - 1\<rparr>
      in put_constructed (take (m_size v1) (constructed w v1)) w v1)"

lemma m_size_put_constructed [simp]:
  "m_size (snd (put_constructed xs w v)) = m_size v"
  by (simp add: put_constructed_def)

lemma m_size_pop_back_only_ref [simp]:
  "m_size (snd (pop_back_only_ref w v)) = m_size v - 1"
  by (simp add: pop_back_only_ref_def Let_def)

lemma m_size_pop_back_only_ref_eq:
  "(w1, v1) = pop_back_only_ref w v \<Longrightarrow> m_size v1 = m_size v - 1"
  by (metis m_size_pop_back_only_ref snd_conv)

text \<open>
  \<open>while (size() > n) pop_back();\<close> on a vector that is small. Both loops of this form in
  the source run on a small vector, for which \<open>pop_back()\<close> takes its first branch.
\<close>

function pop_back_while :: "nat \<Rightarrow> 'a world \<Rightarrow> 'a socow_vector \<Rightarrow> 'a world \<times> 'a socow_vector" where
  "pop_back_while n w v =
     (if n < m_size v then
        (case pop_back_only_ref w v of (w1, v1) \<Rightarrow> pop_back_while n w1 v1)
      else (w, v))"
  by pat_completeness auto
termination
  by (relation "measure (\<lambda>(n, w, v). m_size v - n)")
    (auto split: prod.splits dest!: m_size_pop_back_only_ref_eq [OF sym])

declare pop_back_while.simps [simp del]

text \<open>\<open>std::iter_swap\<close> on two slots of one storage, \<open>std::swap\<close> on slot \<open>i\<close> of two.\<close>

definition iter_swap :: "nat \<Rightarrow> nat \<Rightarrow> 'a list \<Rightarrow> 'a list" where
  "iter_swap i j xs = (xs[i := xs ! j])[j := xs ! i]"

definition swap_slot :: "nat \<Rightarrow> 'a list \<times> 'a list \<Rightarrow> 'a list \<times> 'a list" where
  "swap_slot i p = (case p of (xs, ys) \<Rightarrow> (xs[i := ys ! i], ys[i := xs ! i]))"

text \<open>\<open>for (size_t i = 0; i < n; ++i) std::swap(a.static_buffer[i], b.static_buffer[i]);\<close>\<close>

definition swap_slots :: "nat \<Rightarrow> 'a list \<Rightarrow> 'a list \<Rightarrow> 'a list \<times> 'a list" where
  "swap_slots n xs ys = fold swap_slot [0..<n] (xs, ys)"

section \<open>swap\<close>

text \<open>
  The calls of the non-const \<open>begin()\<close> and \<open>end()\<close> in \<open>swap\<close> are on small vectors, where
  \<open>unshare()\<close> returns at once.
\<close>

function swap ::
  "nat \<Rightarrow> 'a world \<Rightarrow> 'a socow_vector \<Rightarrow> 'a socow_vector \<Rightarrow>
     unit result \<times> 'a world \<times> 'a socow_vector \<times> 'a socow_vector" where
  "swap N w this other =
     (if is_same_vector this other then (Return (), w, this, other)
      else if m_is_small_vector this \<and> m_is_small_vector other then
        (if m_size this > m_size other then
           (case swap N w other this of (r, w1, other1, this1) \<Rightarrow> (r, w1, this1, other1))
         else
           (case uninitialized_copy
                   (drop (m_size this) (take (m_size other) (constructed w other))) w of
              (Throw e, w1) \<Rightarrow> (Throw e, w1, this, other)
            | (Return ys, w1) \<Rightarrow>
                (let this1 = this\<lparr>storage := Static_buffer
                               (construct_at (m_size this) ys (static_buffer (storage this)))\<rparr>;
                     tmp_size = m_size this1;
                     this2 = this1\<lparr>m_size := m_size other\<rparr>
                 in case pop_back_while tmp_size w1 other of
                      (w2, other2) \<Rightarrow>
                        (case swap_slots tmp_size (static_buffer (storage other2))
                                (static_buffer (storage this2)) of
                           (ob, tb) \<Rightarrow>
                             (Return (), w2, this2\<lparr>storage := Static_buffer tb\<rparr>,
                              other2\<lparr>storage := Static_buffer ob\<rparr>)))))
      else if m_is_small_vector other then
        (let tmp = dynamic_data (storage this);
             tmp_size = m_size this;
             this1 = this\<lparr>m_is_small_vector := True, storage := Dynamic_data 0\<rparr>
         in case uninitialized_copy (take (m_size other) (constructed w other)) w of
              (Throw e, w1) \<Rightarrow>
                (Throw e, w1, this1\<lparr>m_is_small_vector := False, storage := Dynamic_data tmp\<rparr>,
                 other)
            | (Return ys, w1) \<Rightarrow>
                (let this2 = this1\<lparr>storage := Static_buffer
                               (construct_at 0 ys (static_buffer (storage this1)))\<rparr>;
                     this3 = this2\<lparr>m_size := m_size other\<rparr>
                 in case noexcept_clear w1 other of
                      (w2, other2) \<Rightarrow>
                        (Return (), w2, this3,
                         other2\<lparr>m_is_small_vector := False, storage := Dynamic_data tmp,
                                m_size := tmp_size\<rparr>)))
      else if m_is_small_vector this then
        (case swap N w other this of (r, w1, other1, this1) \<Rightarrow> (r, w1, this1, other1))
      else
        (Return (), w,
         this\<lparr>storage := Dynamic_data (dynamic_data (storage other)), m_size := m_size other\<rparr>,
         other\<lparr>storage := Dynamic_data (dynamic_data (storage this)), m_size := m_size this\<rparr>))"
  by pat_completeness auto
termination
  by (relation "measure (\<lambda>(N, w, this, other).
        if m_is_small_vector this \<and> m_is_small_vector other
        then (if m_size this > m_size other then 1 else 0)
        else if m_is_small_vector other then 0
        else if m_is_small_vector this then 1 else 0)") auto

declare swap.simps [simp del]

section \<open>Construction, sharing and assignment\<close>

text \<open>The default constructor, for an object at \<open>addr\<close>.\<close>

definition socow_vector_default :: "nat \<Rightarrow> 'a socow_vector" where
  "socow_vector_default addr =
     \<lparr>this_addr = addr, m_size = 0, m_is_small_vector = True, storage = Dynamic_data 0\<rparr>"

text \<open>
  The copy constructor, for an object at \<open>addr\<close>. Its call of \<open>data()\<close> is in the branch
  of a small vector, where \<open>unshare()\<close> returns at once.
\<close>

definition socow_vector_copy ::
  "'a world \<Rightarrow> nat \<Rightarrow> 'a socow_vector \<Rightarrow> 'a socow_vector result \<times> 'a world" where
  "socow_vector_copy w addr other =
     (let v0 = \<lparr>this_addr = addr, m_size = m_size other,
                m_is_small_vector = m_is_small_vector other, storage = Dynamic_data 0\<rparr>
      in if m_is_small_vector v0 then
           (case uninitialized_copy (take (m_size other) (constructed w other)) w of
              (Throw e, w1) \<Rightarrow> (Throw e, w1)
            | (Return ys, w1) \<Rightarrow>
                (Return (v0\<lparr>storage := Static_buffer
                              (construct_at 0 ys (static_buffer (storage v0)))\<rparr>), w1))
         else
           (let v1 = v0\<lparr>storage := Dynamic_data (dynamic_data (storage other))\<rparr>
            in (Return v1, add_vector_ref w v1)))"

text \<open>
  Local objects of a member function of the object at \<open>a\<close> are at \<open>Suc a\<close>: an address
  other than that of \<open>*this\<close>. A temporary is destroyed when its scope is left, by a return
  or by an exception.
\<close>

definition pop_back ::
  "nat \<Rightarrow> 'a world \<Rightarrow> 'a socow_vector \<Rightarrow> unit result \<times> 'a world \<times> 'a socow_vector" where
  "pop_back N w v =
     (if is_only_vector_ref w v then
        (case pop_back_only_ref w v of (w1, v1) \<Rightarrow> (Return (), w1, v1))
      else
        (case socow_vector_copy_n N w (Suc (this_addr v)) v (m_size v - 1) (capacity N w v) of
           (Throw e, w1) \<Rightarrow> (Throw e, w1, v)
         | (Return tmp, w1) \<Rightarrow>
             (case swap N w1 v tmp of
                (r, w2, v2, tmp2) \<Rightarrow> (r, destructor w2 tmp2, v2))))"

definition unshare ::
  "nat \<Rightarrow> 'a world \<Rightarrow> 'a socow_vector \<Rightarrow> unit result \<times> 'a world \<times> 'a socow_vector" where
  "unshare N w v =
     (if is_only_vector_ref w v then (Return (), w, v)
      else
        (case socow_vector_copy_n N w (Suc (this_addr v)) v (m_size v) (capacity N w v) of
           (Throw e, w1) \<Rightarrow> (Throw e, w1, v)
         | (Return tmp, w1) \<Rightarrow>
             (case swap N w1 v tmp of
                (r, w2, v2, tmp2) \<Rightarrow> (r, destructor w2 tmp2, v2))))"

text \<open>The non-const \<open>data()\<close>; the non-const \<open>begin()\<close> is the same function.\<close>

definition data ::
  "nat \<Rightarrow> 'a world \<Rightarrow> 'a socow_vector \<Rightarrow> data_ptr result \<times> 'a world \<times> 'a socow_vector" where
  "data N w v =
     (case unshare N w v of
        (Throw e, w1, v1) \<Rightarrow> (Throw e, w1, v1)
      | (Return u, w1, v1) \<Rightarrow> (Return (const_data v1), w1, v1))"

text \<open>
  \<open>from_dynamic_to_static(data_pointer, count)\<close>; \<open>src\<close> lists the objects at
  \<open>data_pointer\<close>. The assertion \<open>count <= SMALL_SIZE\<close> is compiled out under \<open>NDEBUG\<close>.
\<close>

definition from_dynamic_to_static ::
  "'a world \<Rightarrow> 'a socow_vector \<Rightarrow> 'a list \<Rightarrow> nat \<Rightarrow>
     unit result \<times> 'a world \<times> 'a socow_vector" where
  "from_dynamic_to_static w v src count =
     (let tmp = dynamic_data (storage v);
          v1 = v\<lparr>m_is_small_vector := True, storage := Dynamic_data 0\<rparr>
      in case uninitialized_copy (take count src) w of
           (Throw e, w1) \<Rightarrow>
             (Throw e, w1, v1\<lparr>m_is_small_vector := False, storage := Dynamic_data tmp\<rparr>)
         | (Return ys, w1) \<Rightarrow>
             (Return (), release_ref tmp (m_size v1) w1,
              v1\<lparr>storage := Static_buffer (construct_at 0 ys (static_buffer (storage v1))),
                 m_size := count\<rparr>))"

text \<open>\<open>operator=\<close>; \<open>other\<close> is a reference to a constant object.\<close>

definition assign ::
  "nat \<Rightarrow> 'a world \<Rightarrow> 'a socow_vector \<Rightarrow> 'a socow_vector \<Rightarrow>
     unit result \<times> 'a world \<times> 'a socow_vector" where
  "assign N w this other =
     (if is_same_vector this other then (Return (), w, this)
      else if m_is_small_vector this \<and> m_is_small_vector other then
        (let tmp = socow_vector_default (Suc (this_addr this))
         in case uninitialized_copy
                   (take (min (m_size this) (m_size other)) (constructed w other)) w of
              (Throw e, w1) \<Rightarrow> (Throw e, destructor w1 tmp, this)
            | (Return ys, w1) \<Rightarrow>
                (let tmp1 = tmp\<lparr>storage := Static_buffer
                              (construct_at 0 ys (static_buffer (storage tmp))),
                            m_size := min (m_size this) (m_size other)\<rparr>
                 in case uninitialized_copy
                           (drop (m_size tmp1) (take (m_size other) (constructed w1 other))) w1 of
                      (Throw e, w2) \<Rightarrow> (Throw e, destructor w2 tmp1, this)
                    | (Return zs, w2) \<Rightarrow>
                        (let this1 = this\<lparr>storage := Static_buffer
                                       (construct_at (m_size tmp1) zs
                                          (static_buffer (storage this)))\<rparr>
                         in case pop_back_while (m_size other) w2 this1 of
                              (w3, this2) \<Rightarrow>
                                (let this3 = this2\<lparr>m_size := m_size other\<rparr>
                                 in case swap_slots (m_size tmp1) (static_buffer (storage tmp1))
                                           (static_buffer (storage this3)) of
                                      (tb, sb) \<Rightarrow>
                                        (Return (),
                                         destructor w3 (tmp1\<lparr>storage := Static_buffer tb\<rparr>),
                                         this3\<lparr>storage := Static_buffer sb\<rparr>)))))
      else if m_is_small_vector other then
        from_dynamic_to_static w this (constructed w other) (m_size other)
      else
        (case (if m_is_small_vector this then
                 (case noexcept_clear w this of
                    (w1, this1) \<Rightarrow> (w1, this1\<lparr>m_is_small_vector := False\<rparr>))
               else (release_vector_ref w this, this)) of
           (w1, this1) \<Rightarrow>
             (let this2 = this1\<lparr>storage := Dynamic_data (dynamic_data (storage other))\<rparr>
              in (Return (), add_vector_ref w1 this2, this2\<lparr>m_size := m_size other\<rparr>))))"

section \<open>Capacity control\<close>

definition reserve ::
  "nat \<Rightarrow> 'a world \<Rightarrow> 'a socow_vector \<Rightarrow> nat \<Rightarrow> unit result \<times> 'a world \<times> 'a socow_vector" where
  "reserve N w v new_capacity =
     (if new_capacity < m_size v then (Return (), w, v)
      else if \<not> is_only_vector_ref w v \<and> new_capacity \<le> N then
        from_dynamic_to_static w v (constructed w v) (m_size v)
      else if new_capacity > capacity N w v
              \<or> (\<not> is_only_vector_ref w v \<and> new_capacity \<ge> m_size v) then
        (if m_is_small_vector v then
           (case socow_vector_copy_n N w (Suc (this_addr v)) v (m_size v) new_capacity of
              (Throw e, w1) \<Rightarrow> (Throw e, w1, v)
            | (Return tmp, w1) \<Rightarrow>
                (case assign N w1 v tmp of
                   (r, w2, v2) \<Rightarrow> (r, destructor w2 tmp, v2)))
         else
           (case socow_vector_copy_n N w (Suc (this_addr v)) v (m_size v) new_capacity of
              (Throw e, w1) \<Rightarrow> (Throw e, w1, v)
            | (Return tmp, w1) \<Rightarrow>
                (case swap N w1 tmp v of
                   (r, w2, tmp2, v2) \<Rightarrow> (r, destructor w2 tmp2, v2))))
      else (Return (), w, v))"

definition shrink_to_fit ::
  "nat \<Rightarrow> 'a world \<Rightarrow> 'a socow_vector \<Rightarrow> unit result \<times> 'a world \<times> 'a socow_vector" where
  "shrink_to_fit N w v =
     (if m_is_small_vector v \<or> m_size v = capacity N w v then (Return (), w, v)
      else if m_size v \<le> N then
        from_dynamic_to_static w v (constructed w v) (m_size v)
      else
        (case socow_vector_copy_n N w (Suc (this_addr v)) v (m_size v) (m_size v) of
           (Throw e, w1) \<Rightarrow> (Throw e, w1, v)
         | (Return tmp, w1) \<Rightarrow>
             (case swap N w1 tmp v of
                (r, w2, tmp2, v2) \<Rightarrow> (r, destructor w2 tmp2, v2))))"

definition clear ::
  "nat \<Rightarrow> 'a world \<Rightarrow> 'a socow_vector \<Rightarrow> unit result \<times> 'a world \<times> 'a socow_vector" where
  "clear N w v =
     (if \<not> is_only_vector_ref w v then
        (case reserve N w (socow_vector_default (Suc (this_addr v))) (m_size v) of
           (Throw e, w1, tmp1) \<Rightarrow> (Throw e, destructor w1 tmp1, v)
         | (Return u, w1, tmp1) \<Rightarrow>
             (case swap N w1 v tmp1 of
                (r, w2, v2, tmp2) \<Rightarrow> (r, destructor w2 tmp2, v2)))
      else
        (case put_constructed (destroy_n (m_size v) (constructed w v)) w v of
           (w1, v1) \<Rightarrow>
             (let v2 = v1\<lparr>m_size := 0\<rparr>;
                  was_only_ref = is_only_vector_ref w1 v2
              in case noexcept_clear w1 v2 of
                   (w3, v3) \<Rightarrow>
                     (if \<not> was_only_ref then
                        (case allocate_dynamic_buffer (capacity N w3 v3) w3 v3 of
                           (Throw e, w4, v4) \<Rightarrow> (Throw e, w4, v4)
                         | (Return u, w4, v4) \<Rightarrow>
                             (Return (), w4, v4\<lparr>m_is_small_vector := False\<rparr>))
                      else (Return (), w3, v3)))))"

section \<open>Positional mutation\<close>

text \<open>
  An iterator is a pointer into the storage: the start of the storage and the slot. The
  difference of two pointers into one storage is the difference of their slots.
\<close>

definition ptr_diff :: "iterator \<Rightarrow> iterator \<Rightarrow> nat" where
  "ptr_diff p q = snd p - snd q"

definition cbegin :: "'a socow_vector \<Rightarrow> iterator" where
  "cbegin v = (const_data v, 0)"

definition cend :: "'a socow_vector \<Rightarrow> iterator" where
  "cend v = (const_data v, m_size v)"

text \<open>
  \<open>insert(pos, value)\<close>, named \<open>insert_vec\<close> beside the \<open>insert\<close> of sets. The calls of the non-const \<open>data()\<close>, \<open>begin()\<close> and \<open>end()\<close> are
  made where \<open>is_only_vector_ref()\<close> holds: in the first branch by its condition, in the
  second after \<open>swap(tmp)\<close> has given the object the block allocated for \<open>tmp\<close>.
\<close>

definition insert_vec ::
  "nat \<Rightarrow> 'a world \<Rightarrow> 'a socow_vector \<Rightarrow> iterator \<Rightarrow> 'a \<Rightarrow>
     iterator result \<times> 'a world \<times> 'a socow_vector" where
  "insert_vec N w v pos val =
     (let delta = ptr_diff pos (cbegin v)
      in if m_size v \<noteq> capacity N w v \<and> is_only_vector_ref w v then
           (case copy_construct val w of
              (Throw e, w1) \<Rightarrow> (Throw e, w1, v)
            | (Return y, w1) \<Rightarrow>
                (case put_constructed (construct_at (m_size v) [y] (constructed w1 v)) w1 v of
                   (w2, v2) \<Rightarrow>
                     (let v3 = v2\<lparr>m_size := Suc (m_size v2)\<rparr>
                      in case put_constructed
                                (fold (\<lambda>i. iter_swap i (i - 1)) (rev [Suc delta..<m_size v3])
                                   (constructed w2 v3)) w2 v3 of
                           (w4, v4) \<Rightarrow> (Return (const_data v4, delta), w4, v4))))
         else
           (case allocate_dynamic_buffer
                   (if m_size v = capacity N w v then 2 * capacity N w v else capacity N w v)
                   w (socow_vector_default (Suc (this_addr v))) of
              (Throw e, w1, tmp1) \<Rightarrow> (Throw e, destructor w1 tmp1, v)
            | (Return u, w1, tmp1) \<Rightarrow>
                (let tmp2 = tmp1\<lparr>m_is_small_vector := False\<rparr>
                 in case uninitialized_copy (take delta (constructed w1 v)) w1 of
                      (Throw e, w2) \<Rightarrow> (Throw e, destructor w2 tmp2, v)
                    | (Return ys, w2) \<Rightarrow>
                        (case put_constructed (construct_at 0 ys (constructed w2 tmp2)) w2 tmp2 of
                           (w3, tmp3) \<Rightarrow>
                             (let tmp4 = tmp3\<lparr>m_size := delta\<rparr>
                              in case copy_construct val w3 of
                                   (Throw e, w4) \<Rightarrow> (Throw e, destructor w4 tmp4, v)
                                 | (Return y, w4) \<Rightarrow>
           (case put_constructed (construct_at delta [y] (constructed w4 tmp4)) w4 tmp4 of
              (w5, tmp5) \<Rightarrow>
                (let tmp6 = tmp5\<lparr>m_size := Suc (m_size tmp5)\<rparr>
                 in case uninitialized_copy
                           (drop delta (take (m_size v) (constructed w5 v))) w5 of
                      (Throw e, w6) \<Rightarrow> (Throw e, destructor w6 tmp6, v)
                    | (Return zs, w6) \<Rightarrow>
                        (case put_constructed
                                (construct_at (Suc delta) zs (constructed w6 tmp6)) w6 tmp6 of
                           (w7, tmp7) \<Rightarrow>
                             (let tmp8 = tmp7\<lparr>m_size := Suc (m_size v)\<rparr>
                              in case noexcept_clear w7 v of
                                   (w8, v8) \<Rightarrow>
                                     (case swap N w8 v8 tmp8 of
                                        (Throw e, w9, v9, tmp9) \<Rightarrow>
                                          (Throw e, destructor w9 tmp9, v9)
                                      | (Return u, w9, v9, tmp9) \<Rightarrow>
                                          (Return (const_data v9, delta),
                                           destructor w9 tmp9, v9)))))))))))"

definition push_back ::
  "nat \<Rightarrow> 'a world \<Rightarrow> 'a socow_vector \<Rightarrow> 'a \<Rightarrow> unit result \<times> 'a world \<times> 'a socow_vector" where
  "push_back N w v val =
     (case insert_vec N w v (cend v) val of
        (Throw e, w1, v1) \<Rightarrow> (Throw e, w1, v1)
      | (Return it, w1, v1) \<Rightarrow> (Return (), w1, v1))"

text \<open>\<open>for (auto i = 0; i < interval; i++) pop_back();\<close>\<close>

fun pop_back_times ::
  "nat \<Rightarrow> nat \<Rightarrow> 'a world \<Rightarrow> 'a socow_vector \<Rightarrow> unit result \<times> 'a world \<times> 'a socow_vector" where
  "pop_back_times N 0 w v = (Return (), w, v)"
| "pop_back_times N (Suc k) w v =
     (case pop_back N w v of
        (Throw e, w1, v1) \<Rightarrow> (Throw e, w1, v1)
      | (Return u, w1, v1) \<Rightarrow> pop_back_times N k w1 v1)"

text \<open>
  \<open>erase(first, last)\<close>. The non-const \<open>end()\<close> of the first branch and \<open>tmp.begin()\<close> of the
  second are called where \<open>is_only_vector_ref()\<close> holds, as is \<open>begin()\<close> at the return.
\<close>

definition erase ::
  "nat \<Rightarrow> 'a world \<Rightarrow> 'a socow_vector \<Rightarrow> iterator \<Rightarrow> iterator \<Rightarrow>
     iterator result \<times> 'a world \<times> 'a socow_vector" where
  "erase N w v first last_it =
     (let interval = ptr_diff last_it first;
          delta = ptr_diff first (cbegin v)
      in if is_only_vector_ref w v then
           (case (if interval \<noteq> 0 then
                    put_constructed
                      (fold (\<lambda>i. iter_swap i (i + interval)) [delta..<m_size v - interval]
                         (constructed w v)) w v
                  else (w, v)) of
              (w1, v1) \<Rightarrow>
                (case pop_back_times N interval w1 v1 of
                   (Throw e, w2, v2) \<Rightarrow> (Throw e, w2, v2)
                 | (Return u, w2, v2) \<Rightarrow> (Return (const_data v2, delta), w2, v2)))
         else
           (case socow_vector_copy_n N w (Suc (this_addr v)) v delta (capacity N w v) of
              (Throw e, w1) \<Rightarrow> (Throw e, w1, v)
            | (Return tmp, w1) \<Rightarrow>
                (case uninitialized_copy
                        (drop (delta + interval) (take (m_size v) (constructed w1 v))) w1 of
                   (Throw e, w2) \<Rightarrow> (Throw e, destructor w2 tmp, v)
                 | (Return ys, w2) \<Rightarrow>
                     (case put_constructed (construct_at delta ys (constructed w2 tmp)) w2 tmp of
                        (w3, tmp3) \<Rightarrow>
                          (let tmp4 = tmp3\<lparr>m_size := m_size v - interval\<rparr>
                           in case swap N w3 v tmp4 of
                                (Throw e, w4, v4, tmp5) \<Rightarrow> (Throw e, destructor w4 tmp5, v4)
                              | (Return u, w4, v4, tmp5) \<Rightarrow>
                                  (Return (const_data v4, delta), destructor w4 tmp5, v4))))))"

text \<open>\<open>erase(pos)\<close>\<close>

definition erase1 ::
  "nat \<Rightarrow> 'a world \<Rightarrow> 'a socow_vector \<Rightarrow> iterator \<Rightarrow>
     iterator result \<times> 'a world \<times> 'a socow_vector" where
  "erase1 N w v pos = erase N w v pos (fst pos, Suc (snd pos))"

text \<open>
  Writing through the reference that the non-const \<open>operator[]\<close> returns: \<open>v[index] = x\<close>,
  for an assignment of \<open>T\<close> that does not throw.
\<close>

definition store ::
  "nat \<Rightarrow> 'a world \<Rightarrow> 'a socow_vector \<Rightarrow> nat \<Rightarrow> 'a \<Rightarrow> unit result \<times> 'a world \<times> 'a socow_vector" where
  "store N w v index x =
     (case data N w v of
        (Throw e, w1, v1) \<Rightarrow> (Throw e, w1, v1)
      | (Return p, w1, v1) \<Rightarrow>
          (case put_constructed ((constructed w1 v1)[index := x]) w1 v1 of
             (w2, v2) \<Rightarrow> (Return (), w2, v2)))"

section \<open>Well-formed containers\<close>

text \<open>
  Every address the allocator has not handed out yet holds no block.
\<close>

definition heap_ok :: "'a world \<Rightarrow> bool" where
  "heap_ok w \<longleftrightarrow> (\<forall>p. next_addr w \<le> p \<longrightarrow> heap w p = None)"

text \<open>
  The representation invariant of one container in a world: a small vector counts the
  elements constructed in its inline array, of which there are at most \<open>N\<close>; a dynamic one
  points to a live block of capacity above \<open>N\<close> that holds exactly its elements.
\<close>

definition well_formed :: "nat \<Rightarrow> 'a world \<Rightarrow> 'a socow_vector \<Rightarrow> bool" where
  "well_formed N w v \<longleftrightarrow>
     (if m_is_small_vector v then
        m_size v = length (static_buffer (storage v)) \<and> m_size v \<le> N
      else
        (case storage v of
           Static_buffer xs \<Rightarrow> False
         | Dynamic_data p \<Rightarrow>
             (case heap w p of
                None \<Rightarrow> False
              | Some b \<Rightarrow>
                  length (m_data b) = m_size v \<and> m_size v \<le> m_capacity b \<and>
                  N < m_capacity b \<and> 0 < refs_count b \<and> p < next_addr w)))"

section \<open>The element type and the allocator: what a run of copies does\<close>

lemma uninitialized_copy_eq:
  "uninitialized_copy xs w =
     (if length xs \<le> copy_fuel w
      then (Return xs, w\<lparr>copy_fuel := copy_fuel w - length xs,
                         copies := copies w + length xs\<rparr>)
      else (Throw copy_failed, w\<lparr>copy_fuel := 0, copies := Suc (copies w + copy_fuel w)\<rparr>))"
proof (induction xs arbitrary: w)
  case Nil
  show ?case by simp
next
  case (Cons x xs)
  show ?case
  proof (cases "copy_fuel w")
    case 0
    then show ?thesis by (simp add: copy_construct_def)
  next
    case (Suc k)
    then show ?thesis by (simp add: copy_construct_def Cons.IH)
  qed
qed

lemma well_formed_dynamicE:
  assumes "well_formed N w v" and "\<not> m_is_small_vector v"
  obtains p b where "storage v = Dynamic_data p" and "heap w p = Some b"
    and "length (m_data b) = m_size v" and "m_size v \<le> m_capacity b"
    and "N < m_capacity b" and "0 < refs_count b" and "p < next_addr w"
  using assms by (auto simp: well_formed_def split: storage.splits option.splits)

lemma well_formed_smallD:
  assumes "well_formed N w v" and "m_is_small_vector v"
  shows "m_size v = length (static_buffer (storage v))" and "m_size v \<le> N"
  using assms by (auto simp: well_formed_def)

section \<open>What the loops and \<open>swap\<close> compute\<close>






lemma swap_dynamic_dynamic:
  assumes "\<not> m_is_small_vector a" "\<not> m_is_small_vector b"
    "dynamic_data (storage a) \<noteq> dynamic_data (storage b)"
  shows "swap N w a b = (Return (), w,
     a\<lparr>storage := Dynamic_data (dynamic_data (storage b)), m_size := m_size b\<rparr>,
     b\<lparr>storage := Dynamic_data (dynamic_data (storage a)), m_size := m_size a\<rparr>)"
  using assms by (subst swap.simps) (simp add: is_same_vector_def const_data_def)

lemma swap_dynamic_small:
  assumes "\<not> m_is_small_vector a" "m_is_small_vector b"
    "m_size b \<le> length (static_buffer (storage b))"
  shows "swap N w a b =
    (if m_size b \<le> copy_fuel w then
       (Return (), w\<lparr>copy_fuel := copy_fuel w - m_size b, copies := copies w + m_size b\<rparr>,
        a\<lparr>m_is_small_vector := True,
          storage := Static_buffer (take (m_size b) (static_buffer (storage b))),
          m_size := m_size b\<rparr>,
        b\<lparr>m_is_small_vector := False, storage := Dynamic_data (dynamic_data (storage a)),
          m_size := m_size a\<rparr>)
     else
       (Throw copy_failed, w\<lparr>copy_fuel := 0, copies := Suc (copies w + copy_fuel w)\<rparr>,
        a\<lparr>storage := Dynamic_data (dynamic_data (storage a))\<rparr>, b))"
  using assms
  by (subst swap.simps)
    (simp add: is_same_vector_def const_data_def Let_def uninitialized_copy_eq constructed_def
      construct_at_def noexcept_clear_def is_only_vector_ref_def put_constructed_def
      destroy_n_def min_def)

lemma swap_small_dynamic:
  assumes "m_is_small_vector a" "\<not> m_is_small_vector b"
    "m_size a \<le> length (static_buffer (storage a))"
  shows "swap N w a b =
    (if m_size a \<le> copy_fuel w then
       (Return (), w\<lparr>copy_fuel := copy_fuel w - m_size a, copies := copies w + m_size a\<rparr>,
        a\<lparr>m_is_small_vector := False, storage := Dynamic_data (dynamic_data (storage b)),
          m_size := m_size b\<rparr>,
        b\<lparr>m_is_small_vector := True,
          storage := Static_buffer (take (m_size a) (static_buffer (storage a))),
          m_size := m_size a\<rparr>)
     else
       (Throw copy_failed, w\<lparr>copy_fuel := 0, copies := Suc (copies w + copy_fuel w)\<rparr>,
        a, b\<lparr>storage := Dynamic_data (dynamic_data (storage b))\<rparr>))"
  using assms
  by (subst swap.simps)
    (simp add: is_same_vector_def const_data_def swap_dynamic_small)



lemma iter_swap_adjacent:
  "iter_swap (Suc (length pre)) (length pre) (pre @ m # x # post) = pre @ x # m # post"
  by (simp add: iter_swap_def list_update_append nth_append)

lemma rotate_fold_gen:
  "fold (\<lambda>i. iter_swap i (i - 1)) (rev [Suc (length pre)..<Suc (length pre + length mid)])
      (pre @ mid @ x # post) = pre @ x # mid @ post"
proof (induction mid arbitrary: post rule: rev_induct)
  case Nil
  show ?case by simp
next
  case (snoc m mid)
  have "iter_swap (Suc (length pre + length mid)) (length pre + length mid) ((pre @ mid) @ m # x # post)
        = (pre @ mid) @ x # m # post"
    using iter_swap_adjacent [of "pre @ mid" m x post] by simp
  then show ?case
    using snoc.IH [of "m # post"] by simp
qed

lemma rotate_fold:
  assumes "d \<le> length xs"
  shows "fold (\<lambda>i. iter_swap i (i - 1)) (rev [Suc d..<Suc (length xs)]) (xs @ [x])
         = take d xs @ x # drop d xs"
proof -
  have eq1: "length (take d xs) = d" using assms by simp
  have eq2: "d + length (drop d xs) = length xs" using assms by simp
  have eq3: "take d xs @ drop d xs @ [x] = xs @ [x]" by simp
  show ?thesis
    using rotate_fold_gen [of "take d xs" "drop d xs" x "[]"]
    unfolding eq1 eq2 eq3 by (simp only: append_Nil2)
qed

lemma shift_fold_inv:
  assumes "d \<le> j" "j + k \<le> length xs"
  shows "length (fold (\<lambda>i. iter_swap i (i + k)) [d..<j] xs) = length xs \<and>
         take j (fold (\<lambda>i. iter_swap i (i + k)) [d..<j] xs) = take d xs @ take (j - d) (drop (d + k) xs) \<and>
         drop (j + k) (fold (\<lambda>i. iter_swap i (i + k)) [d..<j] xs) = drop (j + k) xs"
  using assms
proof (induction j)
  case 0
  then show ?case by simp
next
  case (Suc j)
  show ?case
  proof (cases "d = Suc j")
    case True
    then show ?thesis by simp
  next
    case False
    with Suc.prems have dj: "d \<le> j" and jk: "j + k \<le> length xs" "j + k < length xs" by simp_all
    let ?ys = "fold (\<lambda>i. iter_swap i (i + k)) [d..<j] xs"
    from Suc.IH [OF dj jk(1)] have len: "length ?ys = length xs"
      and tk: "take j ?ys = take d xs @ take (j - d) (drop (d + k) xs)"
      and dr: "drop (j + k) ?ys = drop (j + k) xs" by simp_all
    have fold_eq: "fold (\<lambda>i. iter_swap i (i + k)) [d..<Suc j] xs = iter_swap j (j + k) ?ys"
      using dj by simp
    have nth_jk: "?ys ! (j + k) = xs ! (j + k)"
      using dr jk len by (metis Cons_nth_drop_Suc list.inject)
    have jlt: "j < length ?ys" using jk len by simp
    have 1: "length (iter_swap j (j + k) ?ys) = length xs" by (simp add: iter_swap_def len)
    have 2: "take (Suc j) (iter_swap j (j + k) ?ys) = take d xs @ take (Suc j - d) (drop (d + k) xs)"
    proof (cases "k = 0")
      case True
      have "iter_swap j j ?ys = ?ys" by (simp add: iter_swap_def)
      moreover have "take (Suc j) ?ys = take j ?ys @ [?ys ! j]" using jlt by (simp add: take_Suc_conv_app_nth)
      moreover have "take (Suc j - d) (drop d xs) = take (j - d) (drop d xs) @ [xs ! j]"
        using dj jk True by (simp add: Suc_diff_le take_Suc_conv_app_nth)
      ultimately show ?thesis using True tk nth_jk by simp
    next
      case False
      have "take (Suc j) (iter_swap j (j + k) ?ys) = take j ?ys @ [?ys ! (j + k)]"
        using False jlt jk len by (simp add: iter_swap_def take_Suc_conv_app_nth)
      moreover have "take (Suc j - d) (drop (d + k) xs) = take (j - d) (drop (d + k) xs) @ [xs ! (j + k)]"
        using dj jk by (simp add: Suc_diff_le take_Suc_conv_app_nth add.commute add.left_commute)
      ultimately show ?thesis using tk nth_jk by simp
    qed
    have 3: "drop (Suc j + k) (iter_swap j (j + k) ?ys) = drop (Suc j + k) xs"
    proof -
      have "drop (Suc j + k) (iter_swap j (j + k) ?ys) = drop (Suc j + k) ?ys"
        by (simp add: iter_swap_def)
      also have "\<dots> = drop 1 (drop (j + k) ?ys)" by simp
      also have "\<dots> = drop 1 (drop (j + k) xs)" by (simp only: dr)
      finally show ?thesis by simp
    qed
    show ?thesis unfolding fold_eq using 1 2 3 by simp
  qed
qed

lemma shift_fold:
  assumes "d + k \<le> n" "length xs = n"
  shows "take (n - k) (fold (\<lambda>i. iter_swap i (i + k)) [d..<n - k] xs) = take d xs @ drop (d + k) xs"
    and "length (fold (\<lambda>i. iter_swap i (i + k)) [d..<n - k] xs) = n"
  using shift_fold_inv [of d "n - k" k xs] assms by simp_all

section \<open>What \<open>insert\<close> computes\<close>

text \<open>
  \<open>kept w v w1\<close>: every block of \<open>w\<close> that a container other than \<open>v\<close> may point to (a
  block that is not the one of \<open>v\<close>, or one with a reference count above 1) is live in
  \<open>w1\<close>, with its elements and its capacity.
\<close>

definition kept :: "'a world \<Rightarrow> 'a socow_vector \<Rightarrow> 'a world \<Rightarrow> bool" where
  "kept w v w1 \<longleftrightarrow>
     (\<forall>p b. heap w p = Some b \<and>
        (m_is_small_vector v \<or> dynamic_data (storage v) \<noteq> p \<or> 2 \<le> refs_count b) \<longrightarrow>
        (\<exists>b1. heap w1 p = Some b1 \<and> m_data b1 = m_data b \<and> m_capacity b1 = m_capacity b))"

lemmas exec_defs = socow_vector_copy_n_def capacity_def buffer_at_def Let_def
  allocate_dynamic_buffer_def uninitialized_copy_eq constructed_def put_constructed_def
  update_buffer_def construct_at_def destructor_def release_vector_ref_def release_ref_def
  noexcept_clear_def is_only_vector_ref_def destroy_n_def copy_construct_def
  socow_vector_default_def ptr_diff_def cbegin_def cend_def const_data_def elems_def

lemma insert_small:
  assumes ok: "heap_ok w" and wf: "well_formed N w v" and small: "m_is_small_vector v"
    and d: "snd pos \<le> m_size v" and ins: "insert_vec N w v pos x = (r, w1, v1)"
  shows "heap_ok w1 \<and> kept w v w1 \<and> this_addr v1 = this_addr v \<and>
     (\<forall>e. r = Throw e \<longrightarrow> v1 = v \<and> heap w1 = heap w) \<and>
     (\<forall>it. r = Return it \<longrightarrow> it = (const_data v1, snd pos) \<and>
        m_size v1 = Suc (m_size v) \<and>
        elems w1 v1 = take (snd pos) (elems w v) @ x # drop (snd pos) (elems w v) \<and>
        (if m_size v = capacity N w v
         then \<not> m_is_small_vector v1 \<and> storage v1 = Dynamic_data (next_addr w) \<and>
              heap w1 (next_addr w) = Some \<lparr>m_capacity = 2 * capacity N w v, refs_count = 1, m_data = elems w1 v1\<rparr>
         else v1 = v\<lparr>m_size := Suc (m_size v), storage := Static_buffer (elems w1 v1)\<rparr> \<and> heap w1 = heap w))"
proof -
  note sm = well_formed_smallD [OF wf small]
  have fresh: "heap w (next_addr w) = None" using ok by (simp add: heap_ok_def)
  show ?thesis
  proof (cases "m_size v = N")
    case False
    have rot: "fold (\<lambda>i. iter_swap i (i - Suc 0)) (rev [Suc (snd pos)..<Suc (length (static_buffer (storage v)))]) (static_buffer (storage v) @ [x])
      = take (snd pos) (static_buffer (storage v)) @ x # drop (snd pos) (static_buffer (storage v))"
      using rotate_fold [of "snd pos" "static_buffer (storage v)" x] d sm by simp
    show ?thesis
      using ins False small sm d ok rot
      by (auto simp: insert_vec_def exec_defs kept_def heap_ok_def split: if_splits)
  next
    case True
    show ?thesis
      using ins True small sm d ok fresh
      apply (simp add: insert_vec_def exec_defs split: if_splits)
      apply (auto simp: swap_small_dynamic exec_defs kept_def heap_ok_def split: if_splits)
      done
  qed
qed


lemma insert_dynamic:
  assumes ok: "heap_ok w" and wf: "well_formed N w v" and dyn: "\<not> m_is_small_vector v"
    and d: "snd pos \<le> m_size v" and ins: "insert_vec N w v pos x = (r, w1, v1)"
  shows "heap_ok w1 \<and> kept w v w1 \<and> this_addr v1 = this_addr v \<and>
     (\<forall>e. r = Throw e \<longrightarrow> v1 = v \<and> heap w1 = heap w) \<and>
     (\<forall>it. r = Return it \<longrightarrow> it = (const_data v1, snd pos) \<and>
        m_size v1 = Suc (m_size v) \<and> \<not> m_is_small_vector v1 \<and>
        elems w1 v1 = take (snd pos) (elems w v) @ x # drop (snd pos) (elems w v) \<and>
        (if m_size v \<noteq> capacity N w v \<and> is_only_vector_ref w v
         then storage v1 = storage v \<and>
              heap w1 = (heap w)(dynamic_data (storage v) \<mapsto>
                \<lparr>m_capacity = capacity N w v, refs_count = 1, m_data = elems w1 v1\<rparr>)
         else storage v1 = Dynamic_data (next_addr w) \<and>
              heap w1 (next_addr w) = Some
                \<lparr>m_capacity = (if m_size v = capacity N w v then 2 * capacity N w v
                                else capacity N w v),
                 refs_count = 1, m_data = elems w1 v1\<rparr>))"
proof -
  from wf dyn obtain p b where pb: "storage v = Dynamic_data p" "heap w p = Some b"
    "length (m_data b) = m_size v" "m_size v \<le> m_capacity b" "N < m_capacity b"
    "0 < refs_count b" "p < next_addr w"
    by (rule well_formed_dynamicE)
  have fresh: "heap w (next_addr w) = None" using ok by (simp add: heap_ok_def)
  have ne: "p \<noteq> next_addr w" "next_addr w \<noteq> p" using pb by simp_all
  show ?thesis
  proof (cases "refs_count b = 1")
    case excl: True
    show ?thesis
    proof (cases "m_size v = m_capacity b")
      case False
      have rot: "fold (\<lambda>i. iter_swap i (i - Suc 0)) (rev [Suc (snd pos)..<Suc (length (m_data b))]) (m_data b @ [x])
        = take (snd pos) (m_data b) @ x # drop (snd pos) (m_data b)"
        using rotate_fold [of "snd pos" "m_data b" x] d pb by simp
      show ?thesis
        using ins False dyn pb d ok rot excl
        by (auto simp: insert_vec_def exec_defs kept_def heap_ok_def split: if_splits)
    next
      case True
      show ?thesis
        using ins True dyn pb d ok fresh ne excl
        apply (simp add: insert_vec_def exec_defs split: if_splits)
        apply (auto simp: swap_dynamic_dynamic exec_defs kept_def heap_ok_def split: if_splits)
        done
    qed
  next
    case shared: False
    with pb have sh: "2 \<le> refs_count b" by simp
    show ?thesis
      using ins dyn pb d ok fresh ne shared sh
      apply (simp add: insert_vec_def exec_defs split: if_splits)
       apply (auto simp: swap_small_dynamic exec_defs kept_def heap_ok_def split: if_splits)
      done
  qed
qed

section \<open>Copy construction\<close>

text \<open>
  C4. Copy construction from a dynamic source returns, whatever the element type and the
  allocator would do: the new object points to the source's block, whose reference count
  is one more than before, with its capacity and elements as they were, no other block
  changes, and the copy constructor of \<open>T\<close> has not been called. Copy construction from a
  small source calls it once per element, in order: when all the copies succeed, the new
  object is small and holds the copies in its own inline array; when one throws, the
  exception goes to the caller. The heap is the same in both cases.
\<close>

theorem copy_constructor_shares_dynamic_copies_inline:
  assumes "well_formed N w other"
  shows "if m_is_small_vector other then
           socow_vector_copy w addr other =
             (if m_size other \<le> copy_fuel w then
                (Return \<lparr>this_addr = addr, m_size = m_size other, m_is_small_vector = True,
                         storage = Static_buffer (elems w other)\<rparr>,
                 w\<lparr>copy_fuel := copy_fuel w - m_size other,
                   copies := copies w + m_size other\<rparr>)
              else
                (Throw copy_failed,
                 w\<lparr>copy_fuel := 0, copies := Suc (copies w + copy_fuel w)\<rparr>))
         else
           (\<exists>b. heap w (dynamic_data (storage other)) = Some b \<and>
             socow_vector_copy w addr other =
               (Return \<lparr>this_addr = addr, m_size = m_size other, m_is_small_vector = False,
                        storage = Dynamic_data (dynamic_data (storage other))\<rparr>,
                w\<lparr>heap := (heap w)(dynamic_data (storage other) \<mapsto>
                              b\<lparr>refs_count := Suc (refs_count b)\<rparr>)\<rparr>))"
proof (cases "m_is_small_vector other")
  case True
  have len: "length (take (m_size other) (static_buffer (storage other))) = m_size other"
    using well_formed_smallD(1) [OF assms True] by simp
  show ?thesis
    using True len
    by (simp add: socow_vector_copy_def Let_def uninitialized_copy_eq constructed_def
        elems_def construct_at_def)
next
  case False
  from assms False obtain p b where "storage other = Dynamic_data p" "heap w p = Some b"
    by (rule well_formed_dynamicE)
  with False show ?thesis
    by (simp add: socow_vector_copy_def Let_def add_vector_ref_def update_buffer_def)
qed

theorem copy_constructor_shares_dynamic_copies_inline_witness:
  "well_formed 2 \<lparr>heap = (\<lambda>p. None)(0 \<mapsto> \<lparr>m_capacity = 4, refs_count = 1, m_data = [7, 8, 9::nat]\<rparr>),
          next_addr = 1, copy_fuel = 0, alloc_fuel = 0, copies = 0\<rparr>
        \<lparr>this_addr = 10, m_size = 3, m_is_small_vector = False, storage = Dynamic_data 0\<rparr>
   \<and> socow_vector_copy
        \<lparr>heap = (\<lambda>p. None)(0 \<mapsto> \<lparr>m_capacity = 4, refs_count = 1, m_data = [7, 8, 9::nat]\<rparr>),
          next_addr = 1, copy_fuel = 0, alloc_fuel = 0, copies = 0\<rparr> 11
        \<lparr>this_addr = 10, m_size = 3, m_is_small_vector = False, storage = Dynamic_data 0\<rparr>
      = (Return \<lparr>this_addr = 11, m_size = 3, m_is_small_vector = False,
                 storage = Dynamic_data 0\<rparr>,
         \<lparr>heap = (\<lambda>p. None)(0 \<mapsto> \<lparr>m_capacity = 4, refs_count = 2, m_data = [7, 8, 9::nat]\<rparr>),
           next_addr = 1, copy_fuel = 0, alloc_fuel = 0, copies = 0\<rparr>)
   \<and> well_formed 2 \<lparr>heap = (\<lambda>p. None), next_addr = 0, copy_fuel = 5, alloc_fuel = 0, copies = 0\<rparr>
        \<lparr>this_addr = 10, m_size = 2, m_is_small_vector = True,
          storage = Static_buffer [7, 8::nat]\<rparr>
   \<and> socow_vector_copy
        \<lparr>heap = (\<lambda>p. None), next_addr = 0, copy_fuel = 5, alloc_fuel = 0, copies = 0\<rparr> 11
        \<lparr>this_addr = 10, m_size = 2, m_is_small_vector = True,
          storage = Static_buffer [7, 8::nat]\<rparr>
      = (Return \<lparr>this_addr = 11, m_size = 2, m_is_small_vector = True,
                 storage = Static_buffer [7, 8]\<rparr>,
         \<lparr>heap = (\<lambda>p. None), next_addr = 0, copy_fuel = 3, alloc_fuel = 0, copies = 2\<rparr>)"
proof -
  let ?w = "\<lparr>heap = (\<lambda>p. None)(0 \<mapsto> \<lparr>m_capacity = 4, refs_count = 1, m_data = [7, 8, 9::nat]\<rparr>),
          next_addr = 1, copy_fuel = 0, alloc_fuel = 0, copies = 0\<rparr>"
  let ?v = "\<lparr>this_addr = 10, m_size = 3, m_is_small_vector = False,
             storage = Dynamic_data 0 :: nat storage\<rparr>"
  let ?w2 = "\<lparr>heap = (\<lambda>p. None), next_addr = 0, copy_fuel = 5, alloc_fuel = 0,
              copies = 0\<rparr> :: nat world"
  let ?v2 = "\<lparr>this_addr = 10, m_size = 2, m_is_small_vector = True,
              storage = Static_buffer [7, 8::nat]\<rparr>"
  have h1: "well_formed 2 ?w ?v" by (simp add: well_formed_def)
  have h2: "well_formed 2 ?w2 ?v2" by (simp add: well_formed_def)
  show ?thesis
    using h1 h2 copy_constructor_shares_dynamic_copies_inline [OF h1, of 11]
      copy_constructor_shares_dynamic_copies_inline [OF h2, of 11]
    by (simp add: elems_def constructed_def numeral_2_eq_2)
qed

section \<open>Example states\<close>




section \<open>swap\<close>



end
